theory Spec2Isabelle
  imports Main
begin

text \<open>
  A model of \<open>openvqe/hamiltonian/hamiltonian_base.py\<close>: the dataclass
  \<open>ParametersHamiltonian\<close> with its two predicates, and the class \<open>HamiltonianBase\<close>
  with \<open>__call__\<close>, \<open>n_qubits\<close>, \<open>get_fermionic_hamiltonian\<close> and \<open>verify\<close>.
  Exceptions are values, and the operations of an instance pass its state along.
\<close>

section \<open>Python strings\<close>

text \<open>
  A Python \<open>str\<close> is a sequence of Unicode code points, so it is modelled as a list of
  natural numbers. \<open>str\<close> turns an ASCII literal of the source into that representation.
\<close>

type_synonym pystr = "nat list"

definition str :: "string \<Rightarrow> pystr" where
  "str cs = map of_char cs"

text \<open>
  \<open>str.upper()\<close> works code point by code point. On ASCII it maps \<open>a\<close>..\<open>z\<close> (97..122) to
  \<open>A\<close>..\<open>Z\<close> and leaves everything else alone. Above ASCII the result is given by the
  Unicode tables of the Python runtime, where one code point may become several. Those
  tables are not part of the repository, so the mapping of the non-ASCII code points is
  the parameter \<open>uc\<close>; nothing is assumed about it.
\<close>

definition upper_code_point :: "(nat \<Rightarrow> nat list) \<Rightarrow> nat \<Rightarrow> nat list" where
  "upper_code_point uc c =
     (if 97 \<le> c \<and> c \<le> 122 then [c - 32] else if c < 128 then [c] else uc c)"

definition upper :: "(nat \<Rightarrow> nat list) \<Rightarrow> pystr \<Rightarrow> pystr" where
  "upper uc s = concat (map (upper_code_point uc) s)"

section \<open>ParametersHamiltonian\<close>

text \<open>
  The dataclass has the single field \<open>transformation\<close>. \<open>type_of\<close> is the name of the
  class of the parameter object, what the source reads as \<open>type(self.parameters)\<close>.
\<close>

record parameters_hamiltonian =
  type_of :: pystr
  transformation :: pystr

definition jordan_wigner :: "(nat \<Rightarrow> nat list) \<Rightarrow> parameters_hamiltonian \<Rightarrow> bool" where
  "jordan_wigner uc p =
     (if upper uc (transformation p) \<in> set [str ''JW'', str ''J-W'', str ''JORDAN-WIGNER'']
      then True else False)"

definition bravyi_kitaev :: "(nat \<Rightarrow> nat list) \<Rightarrow> parameters_hamiltonian \<Rightarrow> bool" where
  "bravyi_kitaev uc p =
     (if upper uc (transformation p) \<in> set [str ''BK'', str ''B-K'', str ''BRAVYI-KITAEV'']
      then True else False)"

section \<open>Exceptions and outcomes\<close>

text \<open>
  The exceptions the module constructs, by class. \<open>OpenVQEParameterError\<close> is built with
  the keyword arguments \<open>parameter_name\<close>, \<open>parameter_class\<close>, \<open>parameter_value\<close> and
  \<open>called_from\<close>, kept in that order; the other two carry their message. \<open>Raised\<close>
  stands for any exception raised by code outside the module (a subclass method, the
  library), with a description of it.
\<close>

datatype exn =
    is_OpenVQEParameterError: OpenVQEParameterError pystr pystr pystr pystr
  | is_OpenVQEException: OpenVQEException pystr
  | is_NotImplementedError: NotImplementedError pystr
  | is_Raised: Raised pystr

text \<open>
  A method of the instance runs on the state \<open>'s\<close> of the instance: it returns or
  raises, and leaves a state behind in both cases. A function of the library is pure and
  returns or raises.
\<close>

type_synonym ('s, 'a) operation = "'s \<Rightarrow> (exn + 'a) \<times> 's"

definition then_apply :: "exn + 'a \<Rightarrow> ('a \<Rightarrow> exn + 'b) \<Rightarrow> exn + 'b" where
  "then_apply r f = (case r of Inl e \<Rightarrow> Inl e | Inr x \<Rightarrow> f x)"

section \<open>The openfermion functions in use\<close>

text \<open>
  \<open>openfermion\<close> is an external library: its three functions are parameters of the
  model, over the library's types of fermionic Hamiltonians \<open>'h\<close>, fermion operators
  \<open>'f\<close> and qubit operators \<open>'q\<close>.
\<close>

record ('h, 'f, 'q) openfermion =
  openfermion_get_fermion_operator :: "'h \<Rightarrow> exn + 'f"
  openfermion_jordan_wigner :: "'f \<Rightarrow> exn + 'q"
  openfermion_bravyi_kitaev :: "'f \<Rightarrow> exn + 'q"

section \<open>HamiltonianBase\<close>

text \<open>
  What \<open>getattr(self, name, None)\<close> finds: a callable, taking the fermionic Hamiltonian,
  or something that is not callable. No attribute of that name, or the value \<open>None\<close>,
  is \<open>None\<close> here as well. The lookup reads the state of the instance and leaves it as
  it is.
\<close>

datatype ('s, 'h, 'q) attribute =
    Callable "'h \<Rightarrow> ('s, 'q) operation"
  | NotCallable

text \<open>
  An instance of \<open>HamiltonianBase\<close> or of a subclass: the name of its class
  (\<open>type(self).__name__\<close>), its parameters as the state holds them (\<open>self.parameters\<close>),
  the methods a subclass may override (\<open>None\<close>: not overridden), and attribute lookup.
  \<open>module_verify\<close> is \<open>self._verify()\<close>, which \<open>OpenVQEModule\<close> defines outside this
  module.
\<close>

record ('s, 'h, 'q) hamiltonian_base =
  type_name :: pystr
  parameters :: "'s \<Rightarrow> parameters_hamiltonian"
  module_verify :: "('s, bool) operation"
  verify_override :: "('s, bool) operation option"
  get_fermionic_hamiltonian_override :: "('s, 'h) operation option"
  n_qubits_override :: "('s, int) operation option"
  getattr_self :: "'s \<Rightarrow> pystr \<Rightarrow> ('s, 'h, 'q) attribute option"

definition n_qubits :: "('s, 'h, 'q) hamiltonian_base \<Rightarrow> ('s, int) operation" where
  "n_qubits self s =
     (case n_qubits_override self of
        Some m \<Rightarrow> m s
      | None \<Rightarrow>
          (Inl (OpenVQEException (type_name self @ str
             '': forgot to overwrite n_qubits() function or you are calling the BaseClass which you shall not do'')),
           s))"

definition get_fermionic_hamiltonian :: "('s, 'h, 'q) hamiltonian_base \<Rightarrow> ('s, 'h) operation" where
  "get_fermionic_hamiltonian self s =
     (case get_fermionic_hamiltonian_override self of
        Some m \<Rightarrow> m s
      | None \<Rightarrow>
          (Inl (NotImplementedError (str
             ''You try to call get_hamiltonian from the HamiltonianBase class. This function needs to be overwritten by subclasses'')),
           s))"

definition verify :: "('s, 'h, 'q) hamiltonian_base \<Rightarrow> ('s, bool) operation" where
  "verify self s =
     (case verify_override self of
        Some m \<Rightarrow> m s
      | None \<Rightarrow> module_verify self s)"

text \<open>
  The expression of lines 47 and 49: the fermionic Hamiltonian is fetched, converted and
  transformed, in this order, and the first exception ends it.
\<close>

definition transformed_by ::
  "('h, 'f, 'q) openfermion \<Rightarrow> ('f \<Rightarrow> exn + 'q) \<Rightarrow> ('s, 'h, 'q) hamiltonian_base \<Rightarrow> ('s, 'q) operation" where
  "transformed_by lib transform self s =
     (case get_fermionic_hamiltonian self s of
        (Inl e, s') \<Rightarrow> (Inl e, s')
      | (Inr h, s') \<Rightarrow> (then_apply (openfermion_get_fermion_operator lib h) transform, s'))"

text \<open>The call of line 53: the argument is evaluated, then the method found runs on it.\<close>

definition invoke ::
  "('h \<Rightarrow> ('s, 'q) operation) \<Rightarrow> ('s, 'h, 'q) hamiltonian_base \<Rightarrow> ('s, 'q) operation" where
  "invoke transform_method self s =
     (case get_fermionic_hamiltonian self s of
        (Inl e, s') \<Rightarrow> (Inl e, s')
      | (Inr h, s') \<Rightarrow> transform_method h s')"

text \<open>The exception of lines 54 to 56.\<close>

definition unknown_transformation ::
  "('s, 'h, 'q) hamiltonian_base \<Rightarrow> parameters_hamiltonian \<Rightarrow> exn" where
  "unknown_transformation self p =
     OpenVQEParameterError (str ''transformation'') (type_of p) (transformation p)
       (type_name self @ str ''.__call__()'')"

text \<open>
  \<open>__call__\<close>. The value that \<open>verify()\<close> returns is dropped: only an exception of
  \<open>verify()\<close> ends the call there. The parameters are read from the state that
  \<open>verify()\<close> leaves.
\<close>

definition call ::
  "(nat \<Rightarrow> nat list) \<Rightarrow> ('h, 'f, 'q) openfermion \<Rightarrow> ('s, 'h, 'q) hamiltonian_base \<Rightarrow> ('s, 'q) operation" where
  "call uc lib self s =
     (case verify self s of
        (Inl e, s1) \<Rightarrow> (Inl e, s1)
      | (Inr _, s1) \<Rightarrow>
          if jordan_wigner uc (parameters self s1) then
            transformed_by lib (openfermion_jordan_wigner lib) self s1
          else if bravyi_kitaev uc (parameters self s1) then
            transformed_by lib (openfermion_bravyi_kitaev lib) self s1
          else
            (case getattr_self self s1 (transformation (parameters self s1)) of
               Some (Callable transform_method) \<Rightarrow> invoke transform_method self s1
             | _ \<Rightarrow> (Inl (unknown_transformation self (parameters self s1)), s1)))"

text \<open>
  The steps in the order in which section 4.2 of the specification lists them: validate,
  obtain the fermionic Hamiltonian, and only then dispatch on the transformation name.
  This is the specification's reading, kept apart to be compared with \<open>call\<close>.
\<close>

definition call_in_spec_order ::
  "(nat \<Rightarrow> nat list) \<Rightarrow> ('h, 'f, 'q) openfermion \<Rightarrow> ('s, 'h, 'q) hamiltonian_base \<Rightarrow> ('s, 'q) operation" where
  "call_in_spec_order uc lib self s =
     (case verify self s of
        (Inl e, s1) \<Rightarrow> (Inl e, s1)
      | (Inr _, s1) \<Rightarrow>
          (case get_fermionic_hamiltonian self s1 of
             (Inl e, s2) \<Rightarrow> (Inl e, s2)
           | (Inr h, s2) \<Rightarrow>
               if jordan_wigner uc (parameters self s2) then
                 (then_apply (openfermion_get_fermion_operator lib h) (openfermion_jordan_wigner lib), s2)
               else if bravyi_kitaev uc (parameters self s2) then
                 (then_apply (openfermion_get_fermion_operator lib h) (openfermion_bravyi_kitaev lib), s2)
               else
                 (case getattr_self self s2 (transformation (parameters self s2)) of
                    Some (Callable transform_method) \<Rightarrow> transform_method h s2
                  | _ \<Rightarrow> (Inl (unknown_transformation self (parameters self s2)), s2))))"

text \<open>The exception a call raised, if it raised.\<close>

definition raised :: "(exn + 'a) \<times> 's \<Rightarrow> exn option" where
  "raised r = (case fst r of Inl e \<Rightarrow> Some e | Inr _ \<Rightarrow> None)"

section \<open>Instances to evaluate on\<close>

text \<open>
  The class itself, not subclassed: nothing is overridden. Its parameters, the inherited
  \<open>_verify\<close> and its attributes are given.
\<close>

definition HamiltonianBase ::
  "('s \<Rightarrow> parameters_hamiltonian) \<Rightarrow> ('s, bool) operation \<Rightarrow> ('s \<Rightarrow> pystr \<Rightarrow> ('s, 'h, 'q) attribute option)
    \<Rightarrow> ('s, 'h, 'q) hamiltonian_base" where
  "HamiltonianBase ps mv ga =
     \<lparr>type_name = str ''HamiltonianBase'', parameters = ps, module_verify = mv,
      verify_override = None, get_fermionic_hamiltonian_override = None,
      n_qubits_override = None, getattr_self = ga\<rparr>"

text \<open>
  A runtime whose uppercase mapping leaves the non-ASCII code points alone, and a
  library on numbers: Hamiltonians and operators are natural numbers, Jordan-Wigner
  doubles, Bravyi-Kitaev doubles and adds one.
\<close>

definition plain_upper :: "nat \<Rightarrow> nat list" where
  "plain_upper c = [c]"

definition toy_openfermion :: "(nat, nat, nat) openfermion" where
  "toy_openfermion =
     \<lparr>openfermion_get_fermion_operator = (\<lambda>h. Inr h),
      openfermion_jordan_wigner = (\<lambda>f. Inr (2 * f)),
      openfermion_bravyi_kitaev = (\<lambda>f. Inr (2 * f + 1))\<rparr>"

definition configured :: "pystr \<Rightarrow> nat \<Rightarrow> parameters_hamiltonian" where
  "configured t s = \<lparr>type_of = str ''ParametersHamiltonian'', transformation = t\<rparr>"

definition sane :: "(nat, bool) operation" where
  "sane s = (Inr True, s)"

text \<open>
  The base class configured with the name \<open>t\<close>: \<open>_verify\<close> passes, and no attribute has
  one of the names looked up below.
\<close>

definition bare_base :: "pystr \<Rightarrow> (nat, nat, nat) hamiltonian_base" where
  "bare_base t = HamiltonianBase (configured t) sane (\<lambda>s n. None)"

text \<open>
  A subclass whose state is a number: its fermionic Hamiltonian is the state, it has four
  qubits, a method \<open>custom_transform\<close> adding 100, a method \<open>jw\<close> returning 0 and the
  attributes \<open>bk\<close> and \<open>basis\<close> holding data.
\<close>

definition custom_transform :: "nat \<Rightarrow> (nat, nat) operation" where
  "custom_transform h s = (Inr (h + 100), s)"

definition jw_method :: "nat \<Rightarrow> (nat, nat) operation" where
  "jw_method h s = (Inr 0, s)"

definition example_subclass :: "pystr \<Rightarrow> (nat, nat, nat) hamiltonian_base" where
  "example_subclass t =
     \<lparr>type_name = str ''ExampleHamiltonian'', parameters = configured t, module_verify = sane,
      verify_override = None,
      get_fermionic_hamiltonian_override = Some (\<lambda>s. (Inr s, s)),
      n_qubits_override = Some (\<lambda>s. (Inr 4, s)),
      getattr_self = (\<lambda>s.
        [str ''basis'' \<mapsto> NotCallable,
         str ''bk'' \<mapsto> NotCallable,
         str ''jw'' \<mapsto> Callable jw_method,
         str ''custom_transform'' \<mapsto> Callable custom_transform])\<rparr>"

text \<open>The same subclass with a \<open>verify\<close> that finds the instance not sane.\<close>

definition rejecting_subclass :: "pystr \<Rightarrow> (nat, nat, nat) hamiltonian_base" where
  "rejecting_subclass t =
     (example_subclass t)\<lparr>verify_override := Some (\<lambda>s. (Inl (Raised (str ''not sane'')), s))\<rparr>"

text \<open>
  A subclass whose \<open>get_fermionic_hamiltonian()\<close> also changes the configuration. Its
  state counts the Hamiltonians fetched: in state 0 it is configured with \<open>"JW"\<close>, in
  state 1 with \<open>"BK"\<close>, in state 2 with \<open>"custom_transform"\<close> and from then on with
  \<open>"xyz"\<close>; fetching in state \<open>s\<close> returns the Hamiltonian \<open>s + 3\<close> and moves on to
  state \<open>s + 1\<close>.
\<close>

definition reconfigured :: "nat \<Rightarrow> parameters_hamiltonian" where
  "reconfigured s =
     \<lparr>type_of = str ''ParametersHamiltonian'',
      transformation =
        (if s = 0 then str ''JW'' else if s = 1 then str ''BK''
         else if s = 2 then str ''custom_transform'' else str ''xyz'')\<rparr>"

definition reconfiguring_subclass :: "(nat, nat, nat) hamiltonian_base" where
  "reconfiguring_subclass =
     \<lparr>type_name = str ''ReconfiguringHamiltonian'', parameters = reconfigured,
      module_verify = sane, verify_override = None,
      get_fermionic_hamiltonian_override = Some (\<lambda>s. (Inr (s + 3), Suc s)),
      n_qubits_override = Some (\<lambda>s. (Inr 4, s)),
      getattr_self = (\<lambda>s. [str ''custom_transform'' \<mapsto> Callable custom_transform])\<rparr>"

text \<open>
  The example subclass with a setter beside its transformation: \<open>set_basis\<close> replaces the
  state by its argument.
\<close>

definition set_basis :: "nat \<Rightarrow> (nat, nat) operation" where
  "set_basis h s = (Inr 0, h)"

definition stateful_subclass :: "pystr \<Rightarrow> (nat, nat, nat) hamiltonian_base" where
  "stateful_subclass t =
     (example_subclass t)\<lparr>getattr_self := (\<lambda>s.
        [str ''set_basis'' \<mapsto> Callable set_basis,
         str ''custom_transform'' \<mapsto> Callable custom_transform])\<rparr>"

section \<open>Evaluation and dispatch lemmas\<close>

lemmas instance_defs = example_subclass_def configured_def sane_def toy_openfermion_def
  plain_upper_def custom_transform_def jw_method_def

lemmas operation_defs = call_def verify_def get_fermionic_hamiltonian_def
  transformed_by_def invoke_def unknown_transformation_def then_apply_def
  jordan_wigner_def bravyi_kitaev_def upper_def upper_code_point_def str_def

lemma jordan_wigner_iff:
  "jordan_wigner uc p \<longleftrightarrow>
     upper uc (transformation p) \<in> {str ''JW'', str ''J-W'', str ''JORDAN-WIGNER''}"
  by (simp add: jordan_wigner_def)

lemma bravyi_kitaev_iff:
  "bravyi_kitaev uc p \<longleftrightarrow>
     upper uc (transformation p) \<in> {str ''BK'', str ''B-K'', str ''BRAVYI-KITAEV''}"
  by (simp add: bravyi_kitaev_def)

lemma aliases_apart:
  "{str ''JW'', str ''J-W'', str ''JORDAN-WIGNER''} \<inter> {str ''BK'', str ''B-K'', str ''BRAVYI-KITAEV''} = {}"
  by (simp add: str_def)

lemma bravyi_kitaev_not_jordan_wigner:
  "bravyi_kitaev uc p \<Longrightarrow> \<not> jordan_wigner uc p"
  using aliases_apart by (auto simp add: jordan_wigner_iff bravyi_kitaev_iff)

lemma upper_written_aliases:
  "upper uc (str ''JW'') = str ''JW''"
  "upper uc (str ''jw'') = str ''JW''"
  "upper uc (str ''J-W'') = str ''J-W''"
  "upper uc (str ''Jordan-Wigner'') = str ''JORDAN-WIGNER''"
  "upper uc (str ''BK'') = str ''BK''"
  "upper uc (str ''bk'') = str ''BK''"
  "upper uc (str ''B-K'') = str ''B-K''"
  "upper uc (str ''Bravyi-Kitaev'') = str ''BRAVYI-KITAEV''"
  by (simp_all add: upper_def upper_code_point_def str_def)

lemma call_verify_raises:
  "verify self s = (Inl e, s1) \<Longrightarrow> call uc lib self s = (Inl e, s1)"
  by (simp add: call_def)

lemma call_jordan_wigner:
  "verify self s = (Inr v, s1) \<Longrightarrow> jordan_wigner uc (parameters self s1) \<Longrightarrow>
     call uc lib self s = transformed_by lib (openfermion_jordan_wigner lib) self s1"
  by (simp add: call_def)

lemma call_bravyi_kitaev:
  "verify self s = (Inr v, s1) \<Longrightarrow> bravyi_kitaev uc (parameters self s1) \<Longrightarrow>
     call uc lib self s = transformed_by lib (openfermion_bravyi_kitaev lib) self s1"
  by (simp add: call_def bravyi_kitaev_not_jordan_wigner)

lemma call_callable:
  "verify self s = (Inr v, s1) \<Longrightarrow> \<not> jordan_wigner uc (parameters self s1) \<Longrightarrow>
   \<not> bravyi_kitaev uc (parameters self s1) \<Longrightarrow>
   getattr_self self s1 (transformation (parameters self s1)) = Some (Callable m) \<Longrightarrow>
     call uc lib self s = invoke m self s1"
  by (simp add: call_def)

lemma call_not_callable:
  "verify self s = (Inr v, s1) \<Longrightarrow> \<not> jordan_wigner uc (parameters self s1) \<Longrightarrow>
   \<not> bravyi_kitaev uc (parameters self s1) \<Longrightarrow>
   \<forall>m. getattr_self self s1 (transformation (parameters self s1)) \<noteq> Some (Callable m) \<Longrightarrow>
     call uc lib self s = (Inl (unknown_transformation self (parameters self s1)), s1)"
  by (auto simp add: call_def split: option.splits attribute.splits)

section \<open>The predicates of ParametersHamiltonian\<close>

text \<open>
  Claim C3. With \<open>"JW"\<close>, \<open>"jw"\<close>, \<open>"J-W"\<close> or \<open>"Jordan-Wigner"\<close> stored as the
  transformation, \<open>jordan_wigner()\<close> is true; with \<open>"BK"\<close>, \<open>"bk"\<close>, \<open>"B-K"\<close> or
  \<open>"Bravyi-Kitaev"\<close> stored, \<open>bravyi_kitaev()\<close> is true. In general each predicate is true
  exactly when the uppercased name is one of its aliases: \<open>JW\<close>, \<open>J-W\<close>, \<open>JORDAN-WIGNER\<close>
  for the first, \<open>BK\<close>, \<open>B-K\<close>, \<open>BRAVYI-KITAEV\<close> for the second.
\<close>

theorem alias_predicates:
  "jordan_wigner uc (p\<lparr>transformation := str ''JW''\<rparr>)
   \<and> jordan_wigner uc (p\<lparr>transformation := str ''jw''\<rparr>)
   \<and> jordan_wigner uc (p\<lparr>transformation := str ''J-W''\<rparr>)
   \<and> jordan_wigner uc (p\<lparr>transformation := str ''Jordan-Wigner''\<rparr>)
   \<and> bravyi_kitaev uc (p\<lparr>transformation := str ''BK''\<rparr>)
   \<and> bravyi_kitaev uc (p\<lparr>transformation := str ''bk''\<rparr>)
   \<and> bravyi_kitaev uc (p\<lparr>transformation := str ''B-K''\<rparr>)
   \<and> bravyi_kitaev uc (p\<lparr>transformation := str ''Bravyi-Kitaev''\<rparr>)
   \<and> (jordan_wigner uc q \<longleftrightarrow>
        upper uc (transformation q) \<in> {str ''JW'', str ''J-W'', str ''JORDAN-WIGNER''})
   \<and> (bravyi_kitaev uc q \<longleftrightarrow>
        upper uc (transformation q) \<in> {str ''BK'', str ''B-K'', str ''BRAVYI-KITAEV''})"
proof -
  have jw: "jordan_wigner uc (p\<lparr>transformation := a\<rparr>)"
    if "upper uc a \<in> {str ''JW'', str ''J-W'', str ''JORDAN-WIGNER''}" for a
    using that by (simp add: jordan_wigner_iff)
  have bk: "bravyi_kitaev uc (p\<lparr>transformation := a\<rparr>)"
    if "upper uc a \<in> {str ''BK'', str ''B-K'', str ''BRAVYI-KITAEV''}" for a
    using that by (simp add: bravyi_kitaev_iff)
  show ?thesis
    by (intro conjI jw bk jordan_wigner_iff bravyi_kitaev_iff)
       (simp_all only: upper_written_aliases insert_iff simp_thms)
qed

text \<open>
  Claim C9. No transformation name makes both predicates true: the two alias lists have no
  element in common, so at most one of the two built-in branches applies.
\<close>

theorem predicates_exclusive:
  "\<not> (jordan_wigner uc p \<and> bravyi_kitaev uc p)"
  using bravyi_kitaev_not_jordan_wigner [of uc p] by blast


section \<open>The operations a subclass has to provide\<close>

text \<open>
  Claim C4, as the specification states it, fails: on the class itself \<open>n_qubits()\<close>
  raises an \<open>OpenVQEException\<close>, which is not a \<open>NotImplementedError\<close>, whereas
  \<open>get_fermionic_hamiltonian()\<close> raises a \<open>NotImplementedError\<close>. The two operations do
  not fail with the same kind of error.
\<close>

theorem n_qubits_not_NotImplementedError:
  "map_option is_NotImplementedError (raised (n_qubits (bare_base (str ''JW'')) 3)) = Some False
   \<and> map_option is_NotImplementedError
        (raised (get_fermionic_hamiltonian (bare_base (str ''JW'')) 3)) = Some True"
  by (simp add: instance_defs bare_base_def HamiltonianBase_def n_qubits_def
        get_fermionic_hamiltonian_def raised_def)

text \<open>
  Claim C4, amended. On an instance whose class overrides neither operation, both always
  raise and leave the state as it was: \<open>n_qubits()\<close> raises an \<open>OpenVQEException\<close> whose
  message starts with the name of the class, \<open>get_fermionic_hamiltonian()\<close> raises a
  \<open>NotImplementedError\<close> with a fixed message.
\<close>

theorem abstract_operations_raise:
  assumes "n_qubits_override self = None"
    and "get_fermionic_hamiltonian_override self = None"
  shows "n_qubits self s =
           (Inl (OpenVQEException (type_name self @ str
              '': forgot to overwrite n_qubits() function or you are calling the BaseClass which you shall not do'')),
            s)
       \<and> get_fermionic_hamiltonian self s =
           (Inl (NotImplementedError (str
              ''You try to call get_hamiltonian from the HamiltonianBase class. This function needs to be overwritten by subclasses'')),
            s)"
  using assms by (simp add: n_qubits_def get_fermionic_hamiltonian_def)

theorem abstract_operations_raise_witness:
  "n_qubits (bare_base (str ''JW'')) 3 =
     (Inl (OpenVQEException (str
        ''HamiltonianBase: forgot to overwrite n_qubits() function or you are calling the BaseClass which you shall not do'')),
      3)
   \<and> get_fermionic_hamiltonian (bare_base (str ''JW'')) 3 =
     (Inl (NotImplementedError (str
        ''You try to call get_hamiltonian from the HamiltonianBase class. This function needs to be overwritten by subclasses'')),
      3)"
proof -
  have a: "n_qubits_override (bare_base (str ''JW'')) = None"
    by (simp add: bare_base_def HamiltonianBase_def)
  have b: "get_fermionic_hamiltonian_override (bare_base (str ''JW'')) = None"
    by (simp add: bare_base_def HamiltonianBase_def)
  have c: "type_name (bare_base (str ''JW'')) = str ''HamiltonianBase''"
    by (simp add: bare_base_def HamiltonianBase_def)
  have d: "str ''HamiltonianBase'' @ str
      '': forgot to overwrite n_qubits() function or you are calling the BaseClass which you shall not do''
    = str ''HamiltonianBase: forgot to overwrite n_qubits() function or you are calling the BaseClass which you shall not do''"
    by (simp add: str_def)
  show ?thesis
    using abstract_operations_raise [OF a b, of 3] by (simp only: c d)
qed

section \<open>The built-in transformations\<close>

text \<open>
  Claim C1, as the specification states it, fails: a subclass that provides the
  Hamiltonian 3 and is configured with \<open>"JW"\<close>, but whose \<open>verify()\<close> raises, gets that
  exception from \<open>__call__\<close> and not the result of the library, which is 6 here.
\<close>

theorem delegation_fails_when_verify_raises:
  "get_fermionic_hamiltonian (rejecting_subclass (str ''JW'')) 3 = (Inr 3, 3)
   \<and> transformation (parameters (rejecting_subclass (str ''JW'')) 3) = str ''JW''
   \<and> then_apply (openfermion_get_fermion_operator toy_openfermion 3)
        (openfermion_jordan_wigner toy_openfermion) = Inr 6
   \<and> call plain_upper toy_openfermion (rejecting_subclass (str ''JW'')) 3
        = (Inl (Raised (str ''not sane'')), 3)
   \<and> fst (call plain_upper toy_openfermion (rejecting_subclass (str ''JW'')) 3)
        \<noteq> then_apply (openfermion_get_fermion_operator toy_openfermion 3)
            (openfermion_jordan_wigner toy_openfermion)"
  by (simp add: instance_defs rejecting_subclass_def operation_defs)

text \<open>
  Claim C1, amended. When \<open>verify()\<close> returns, the configuration is then a Jordan-Wigner
  alias and \<open>get_fermionic_hamiltonian()\<close> provides \<open>H\<close>, the outcome of \<open>__call__\<close> is
  exactly that of \<open>jordan_wigner(get_fermion_operator(H))\<close>, an exception of the library
  included; with a Bravyi-Kitaev alias it is that of
  \<open>bravyi_kitaev(get_fermion_operator(H))\<close>.
\<close>

theorem builtin_delegation:
  assumes "verify self s = (Inr v, s1)"
    and "get_fermionic_hamiltonian self s1 = (Inr H, s2)"
  shows "(jordan_wigner uc (parameters self s1) \<longrightarrow>
            call uc lib self s =
              (then_apply (openfermion_get_fermion_operator lib H) (openfermion_jordan_wigner lib), s2))
       \<and> (bravyi_kitaev uc (parameters self s1) \<longrightarrow>
            call uc lib self s =
              (then_apply (openfermion_get_fermion_operator lib H) (openfermion_bravyi_kitaev lib), s2))"
  using assms
  by (simp add: call_jordan_wigner [OF assms(1)] call_bravyi_kitaev [OF assms(1)] transformed_by_def)

theorem builtin_delegation_witness:
  "call plain_upper toy_openfermion (example_subclass (str ''JW'')) 3 = (Inr 6, 3)
   \<and> call plain_upper toy_openfermion (example_subclass (str ''Bravyi-Kitaev'')) 3 = (Inr 7, 3)"
proof -
  have v: "verify (example_subclass t) 3 = (Inr True, 3)" for t
    by (simp add: instance_defs verify_def)
  have g: "get_fermionic_hamiltonian (example_subclass t) 3 = (Inr 3, 3)" for t
    by (simp add: instance_defs get_fermionic_hamiltonian_def)
  have j: "jordan_wigner plain_upper (parameters (example_subclass (str ''JW'')) 3)"
    by (simp add: instance_defs jordan_wigner_iff upper_written_aliases)
  have b: "bravyi_kitaev plain_upper (parameters (example_subclass (str ''Bravyi-Kitaev'')) 3)"
    by (simp add: instance_defs bravyi_kitaev_iff upper_written_aliases)
  show ?thesis
    using builtin_delegation [OF v g, of plain_upper "str ''JW''" toy_openfermion] j
      builtin_delegation [OF v g, of plain_upper "str ''Bravyi-Kitaev''" toy_openfermion] b
    by (simp add: toy_openfermion_def then_apply_def)
qed

section \<open>Unknown and custom transformations\<close>

text \<open>
  Claim C2, as the specification states it, fails: with the name \<open>"xyz"\<close>, which is no
  alias and no attribute of the instance, an instance whose \<open>verify()\<close> raises gets that
  exception from \<open>__call__\<close>, not the parameter error.
\<close>

theorem unknown_name_not_reported_when_verify_raises:
  "\<not> jordan_wigner plain_upper (parameters (rejecting_subclass (str ''xyz'')) 3)
   \<and> \<not> bravyi_kitaev plain_upper (parameters (rejecting_subclass (str ''xyz'')) 3)
   \<and> getattr_self (rejecting_subclass (str ''xyz'')) 3 (str ''xyz'') = None
   \<and> raised (call plain_upper toy_openfermion (rejecting_subclass (str ''xyz'')) 3)
        = Some (Raised (str ''not sane''))
   \<and> map_option is_OpenVQEParameterError
        (raised (call plain_upper toy_openfermion (rejecting_subclass (str ''xyz'')) 3)) = Some False"
  by (simp add: instance_defs rejecting_subclass_def raised_def operation_defs)

text \<open>
  Claim C2, amended. When \<open>verify()\<close> returns and the configured name is then neither a
  Jordan-Wigner alias nor a Bravyi-Kitaev alias nor the name of a callable attribute of
  the instance, \<open>__call__\<close> raises the \<open>OpenVQEParameterError\<close> that carries the parameter
  name \<open>"transformation"\<close>, the type of the parameters, the configured name and the
  calling context, the class name followed by \<open>".__call__()"\<close>.
\<close>

theorem unknown_transformation_raises:
  assumes "verify self s = (Inr v, s1)"
    and "\<not> jordan_wigner uc (parameters self s1)"
    and "\<not> bravyi_kitaev uc (parameters self s1)"
    and "\<forall>m. getattr_self self s1 (transformation (parameters self s1)) \<noteq> Some (Callable m)"
  shows "call uc lib self s =
           (Inl (OpenVQEParameterError (str ''transformation'') (type_of (parameters self s1))
                   (transformation (parameters self s1)) (type_name self @ str ''.__call__()'')),
            s1)"
  using call_not_callable [OF assms] by (simp add: unknown_transformation_def)

theorem unknown_transformation_raises_witness:
  "call plain_upper toy_openfermion (bare_base (str ''xyz'')) 3 =
     (Inl (OpenVQEParameterError (str ''transformation'') (str ''ParametersHamiltonian'')
             (str ''xyz'') (str ''HamiltonianBase.__call__()'')),
      3)"
proof -
  have v: "verify (bare_base (str ''xyz'')) 3 = (Inr True, 3)"
    by (simp add: instance_defs bare_base_def HamiltonianBase_def verify_def)
  have j: "\<not> jordan_wigner plain_upper (parameters (bare_base (str ''xyz'')) 3)"
    by (simp add: instance_defs bare_base_def HamiltonianBase_def operation_defs)
  have b: "\<not> bravyi_kitaev plain_upper (parameters (bare_base (str ''xyz'')) 3)"
    by (simp add: instance_defs bare_base_def HamiltonianBase_def operation_defs)
  have a: "\<forall>m. getattr_self (bare_base (str ''xyz'')) 3
             (transformation (parameters (bare_base (str ''xyz'')) 3)) \<noteq> Some (Callable m)"
    by (simp add: instance_defs bare_base_def HamiltonianBase_def)
  show ?thesis
    using unknown_transformation_raises [OF v j b a, of toy_openfermion]
    by (simp add: instance_defs bare_base_def HamiltonianBase_def str_def)
qed

text \<open>
  Claim C5, as the specification states it, fails: the example subclass defines a method
  \<open>jw\<close>, which returns 0 on the Hamiltonian 3, and is configured with \<open>"jw"\<close>; the name is
  a Jordan-Wigner alias, so \<open>__call__\<close> returns the library's result 6 and the method is
  not called.
\<close>

theorem method_named_like_alias_not_called:
  "getattr_self (example_subclass (str ''jw'')) 3
       (transformation (parameters (example_subclass (str ''jw'')) 3))
     = Some (Callable jw_method)
   \<and> get_fermionic_hamiltonian (example_subclass (str ''jw'')) 3 = (Inr 3, 3)
   \<and> call plain_upper toy_openfermion (example_subclass (str ''jw'')) 3 = (Inr 6, 3)
   \<and> call plain_upper toy_openfermion (example_subclass (str ''jw'')) 3
        \<noteq> jw_method 3 3"
  by (simp add: instance_defs operation_defs)

text \<open>
  Claim C5, amended. When \<open>verify()\<close> returns, the configured name is then neither a
  Jordan-Wigner nor a Bravyi-Kitaev alias and names a callable attribute of the instance,
  and \<open>get_fermionic_hamiltonian()\<close> provides \<open>H\<close>, the outcome of \<open>__call__\<close> is exactly
  the outcome of that callable on \<open>H\<close>.
\<close>

theorem custom_transformation_called:
  assumes "verify self s = (Inr v, s1)"
    and "\<not> jordan_wigner uc (parameters self s1)"
    and "\<not> bravyi_kitaev uc (parameters self s1)"
    and "getattr_self self s1 (transformation (parameters self s1)) = Some (Callable m)"
    and "get_fermionic_hamiltonian self s1 = (Inr H, s2)"
  shows "call uc lib self s = m H s2"
  using call_callable [OF assms(1-4)] assms(5) by (simp add: invoke_def)

theorem custom_transformation_called_witness:
  "call plain_upper toy_openfermion (example_subclass (str ''custom_transform'')) 3 = (Inr 103, 3)"
proof -
  let ?x = "example_subclass (str ''custom_transform'')"
  have v: "verify ?x 3 = (Inr True, 3)"
    by (simp add: instance_defs verify_def)
  have j: "\<not> jordan_wigner plain_upper (parameters ?x 3)"
    by (simp add: instance_defs operation_defs)
  have b: "\<not> bravyi_kitaev plain_upper (parameters ?x 3)"
    by (simp add: instance_defs operation_defs)
  have a: "getattr_self ?x 3 (transformation (parameters ?x 3))
             = Some (Callable custom_transform)"
    by (simp add: instance_defs)
  have g: "get_fermionic_hamiltonian ?x 3 = (Inr 3, 3)"
    by (simp add: instance_defs get_fermionic_hamiltonian_def)
  show ?thesis
    using custom_transformation_called [OF v j b a g, of toy_openfermion]
    by (simp add: custom_transform_def)
qed

text \<open>
  Claim C10, as the specification states it, fails: the example subclass has an attribute
  \<open>bk\<close> that is not callable and is configured with \<open>"bk"\<close>; the name is a Bravyi-Kitaev
  alias, so \<open>__call__\<close> returns the library's result 7 and raises nothing.
\<close>

theorem attribute_named_like_alias_no_error:
  "getattr_self (example_subclass (str ''bk'')) 3
       (transformation (parameters (example_subclass (str ''bk'')) 3)) = Some NotCallable
   \<and> call plain_upper toy_openfermion (example_subclass (str ''bk'')) 3 = (Inr 7, 3)
   \<and> raised (call plain_upper toy_openfermion (example_subclass (str ''bk'')) 3) = None"
  by (simp add: instance_defs raised_def operation_defs)

text \<open>
  Claim C10, amended. When \<open>verify()\<close> returns and the configured name is then neither a
  Jordan-Wigner nor a Bravyi-Kitaev alias: if the name is that of an attribute which
  exists but is not callable, \<open>__call__\<close> raises the unknown-transformation parameter
  error and invokes nothing; if it is that of a callable attribute, the callable is
  invoked. So the callable test decides, not the existence of the attribute.
\<close>

theorem callable_test_decides:
  assumes "verify self s = (Inr v, s1)"
    and "\<not> jordan_wigner uc (parameters self s1)"
    and "\<not> bravyi_kitaev uc (parameters self s1)"
  shows "(getattr_self self s1 (transformation (parameters self s1)) = Some NotCallable \<longrightarrow>
            call uc lib self s = (Inl (unknown_transformation self (parameters self s1)), s1))
       \<and> (getattr_self self s1 (transformation (parameters self s1)) = Some (Callable m) \<longrightarrow>
            call uc lib self s = invoke m self s1)"
proof (intro conjI impI)
  assume "getattr_self self s1 (transformation (parameters self s1)) = Some NotCallable"
  then have "\<forall>m. getattr_self self s1 (transformation (parameters self s1)) \<noteq> Some (Callable m)"
    by simp
  then show "call uc lib self s = (Inl (unknown_transformation self (parameters self s1)), s1)"
    by (rule call_not_callable [OF assms])
next
  assume "getattr_self self s1 (transformation (parameters self s1)) = Some (Callable m)"
  then show "call uc lib self s = invoke m self s1"
    by (rule call_callable [OF assms])
qed

theorem callable_test_decides_witness:
  "call plain_upper toy_openfermion (example_subclass (str ''basis'')) 3 =
     (Inl (OpenVQEParameterError (str ''transformation'') (str ''ParametersHamiltonian'')
             (str ''basis'') (str ''ExampleHamiltonian.__call__()'')),
      3)
   \<and> call plain_upper toy_openfermion (example_subclass (str ''custom_transform'')) 3 = (Inr 103, 3)"
proof -
  let ?x = "example_subclass (str ''basis'')"
  let ?y = "example_subclass (str ''custom_transform'')"
  have v: "verify (example_subclass t) 3 = (Inr True, 3)" for t
    by (simp add: instance_defs verify_def)
  have jx: "\<not> jordan_wigner plain_upper (parameters ?x 3)"
    and bx: "\<not> bravyi_kitaev plain_upper (parameters ?x 3)"
    and jy: "\<not> jordan_wigner plain_upper (parameters ?y 3)"
    and by': "\<not> bravyi_kitaev plain_upper (parameters ?y 3)"
    by (simp_all add: instance_defs operation_defs)
  have ax: "getattr_self ?x 3 (transformation (parameters ?x 3)) = Some NotCallable"
    by (simp add: instance_defs str_def)
  have ay: "getattr_self ?y 3 (transformation (parameters ?y 3))
              = Some (Callable custom_transform)"
    by (simp add: instance_defs)
  show ?thesis
    using callable_test_decides [OF v jx bx, of toy_openfermion] ax
      callable_test_decides [OF v jy by', of toy_openfermion custom_transform] ay
    by (simp add: instance_defs unknown_transformation_def invoke_def
          get_fermionic_hamiltonian_def str_def)
qed

section \<open>The order of the steps\<close>

text \<open>
  Claim C6, as the specification states it, fails: on the class itself, configured with
  the unknown name \<open>"xyz"\<close>, \<open>__call__\<close> raises the parameter error, whereas obtaining
  the fermionic Hamiltonian before the dispatch would raise the \<open>NotImplementedError\<close>
  of \<open>get_fermionic_hamiltonian()\<close>. The Hamiltonian is not obtained before the dispatch.
\<close>

theorem hamiltonian_not_obtained_before_dispatch:
  "raised (call plain_upper toy_openfermion (bare_base (str ''xyz'')) 3)
     = Some (OpenVQEParameterError (str ''transformation'') (str ''ParametersHamiltonian'')
               (str ''xyz'') (str ''HamiltonianBase.__call__()''))
   \<and> map_option is_NotImplementedError
        (raised (call_in_spec_order plain_upper toy_openfermion (bare_base (str ''xyz'')) 3))
       = Some True
   \<and> call plain_upper toy_openfermion (bare_base (str ''xyz'')) 3
       \<noteq> call_in_spec_order plain_upper toy_openfermion (bare_base (str ''xyz'')) 3"
  by (simp add: instance_defs bare_base_def HamiltonianBase_def raised_def
        call_in_spec_order_def operation_defs)

text \<open>
  Claim C6, amended. Every invocation of \<open>__call__\<close> validates first: if \<open>verify()\<close>
  raises, that exception is the outcome and the state is the one \<open>verify()\<close> left. The
  dispatch is then decided on the configured name as the state holds it after
  \<open>verify()\<close>. The fermionic Hamiltonian is obtained after that decision: for an unknown
  name it is not obtained at all, the parameter error is raised on the state \<open>verify()\<close>
  left; in the Jordan-Wigner, Bravyi-Kitaev and custom branches it is obtained before the
  transformation runs, so an exception of \<open>get_fermionic_hamiltonian()\<close> is the outcome
  there, and when it returns \<open>H\<close> the outcome is that of the transformation of the
  branch chosen before, applied to \<open>H\<close>, whatever the state holds after the fetch.
\<close>

theorem call_step_order:
  "(verify self s = (Inl e, s1) \<longrightarrow> call uc lib self s = (Inl e, s1))
   \<and> (verify self s = (Inr v, s1)
        \<and> \<not> jordan_wigner uc (parameters self s1) \<and> \<not> bravyi_kitaev uc (parameters self s1)
        \<and> (\<forall>m'. getattr_self self s1 (transformation (parameters self s1)) \<noteq> Some (Callable m'))
       \<longrightarrow> call uc lib self s = (Inl (unknown_transformation self (parameters self s1)), s1))
   \<and> (verify self s = (Inr v, s1)
        \<and> (jordan_wigner uc (parameters self s1) \<or> bravyi_kitaev uc (parameters self s1)
           \<or> getattr_self self s1 (transformation (parameters self s1)) = Some (Callable m))
        \<and> get_fermionic_hamiltonian self s1 = (Inl e', s2)
       \<longrightarrow> call uc lib self s = (Inl e', s2))
   \<and> (verify self s = (Inr v, s1)
        \<and> jordan_wigner uc (parameters self s1)
        \<and> get_fermionic_hamiltonian self s1 = (Inr H, s2)
       \<longrightarrow> call uc lib self s =
             (case openfermion_get_fermion_operator lib H of
                Inl x \<Rightarrow> Inl x
              | Inr f \<Rightarrow> openfermion_jordan_wigner lib f,
              s2))
   \<and> (verify self s = (Inr v, s1)
        \<and> bravyi_kitaev uc (parameters self s1)
        \<and> get_fermionic_hamiltonian self s1 = (Inr H, s2)
       \<longrightarrow> call uc lib self s =
             (case openfermion_get_fermion_operator lib H of
                Inl x \<Rightarrow> Inl x
              | Inr f \<Rightarrow> openfermion_bravyi_kitaev lib f,
              s2))
   \<and> (verify self s = (Inr v, s1)
        \<and> \<not> jordan_wigner uc (parameters self s1) \<and> \<not> bravyi_kitaev uc (parameters self s1)
        \<and> getattr_self self s1 (transformation (parameters self s1)) = Some (Callable m)
        \<and> get_fermionic_hamiltonian self s1 = (Inr H, s2)
       \<longrightarrow> call uc lib self s = m H s2)"
proof (intro conjI impI)
  assume "verify self s = (Inl e, s1)"
  then show "call uc lib self s = (Inl e, s1)"
    by (rule call_verify_raises)
next
  assume "verify self s = (Inr v, s1)
        \<and> \<not> jordan_wigner uc (parameters self s1) \<and> \<not> bravyi_kitaev uc (parameters self s1)
        \<and> (\<forall>m'. getattr_self self s1 (transformation (parameters self s1)) \<noteq> Some (Callable m'))"
  then show "call uc lib self s = (Inl (unknown_transformation self (parameters self s1)), s1)"
    by (simp add: call_not_callable)
next
  assume a: "verify self s = (Inr v, s1)
        \<and> (jordan_wigner uc (parameters self s1) \<or> bravyi_kitaev uc (parameters self s1)
           \<or> getattr_self self s1 (transformation (parameters self s1)) = Some (Callable m))
        \<and> get_fermionic_hamiltonian self s1 = (Inl e', s2)"
  then have v: "verify self s = (Inr v, s1)"
    and g: "get_fermionic_hamiltonian self s1 = (Inl e', s2)"
    by simp_all
  show "call uc lib self s = (Inl e', s2)"
  proof (cases "jordan_wigner uc (parameters self s1)")
    case True
    then show ?thesis
      by (simp add: call_jordan_wigner [OF v] transformed_by_def g)
  next
    case nj: False
    show ?thesis
    proof (cases "bravyi_kitaev uc (parameters self s1)")
      case True
      then show ?thesis
        by (simp add: call_bravyi_kitaev [OF v] transformed_by_def g)
    next
      case False
      with a nj have "getattr_self self s1 (transformation (parameters self s1)) = Some (Callable m)"
        by simp
      then show ?thesis
        by (simp add: call_callable [OF v nj False] invoke_def g)
    qed
  qed
next
  assume "verify self s = (Inr v, s1)
        \<and> jordan_wigner uc (parameters self s1)
        \<and> get_fermionic_hamiltonian self s1 = (Inr H, s2)"
  then show "call uc lib self s =
             (case openfermion_get_fermion_operator lib H of
                Inl x \<Rightarrow> Inl x
              | Inr f \<Rightarrow> openfermion_jordan_wigner lib f,
              s2)"
    by (simp add: call_jordan_wigner transformed_by_def then_apply_def)
next
  assume "verify self s = (Inr v, s1)
        \<and> bravyi_kitaev uc (parameters self s1)
        \<and> get_fermionic_hamiltonian self s1 = (Inr H, s2)"
  then show "call uc lib self s =
             (case openfermion_get_fermion_operator lib H of
                Inl x \<Rightarrow> Inl x
              | Inr f \<Rightarrow> openfermion_bravyi_kitaev lib f,
              s2)"
    by (simp add: call_bravyi_kitaev transformed_by_def then_apply_def)
next
  assume "verify self s = (Inr v, s1)
        \<and> \<not> jordan_wigner uc (parameters self s1) \<and> \<not> bravyi_kitaev uc (parameters self s1)
        \<and> getattr_self self s1 (transformation (parameters self s1)) = Some (Callable m)
        \<and> get_fermionic_hamiltonian self s1 = (Inr H, s2)"
  then show "call uc lib self s = m H s2"
    by (simp add: call_callable invoke_def)
qed

theorem call_step_order_witness:
  "call plain_upper toy_openfermion (rejecting_subclass (str ''JW'')) 3
     = (Inl (Raised (str ''not sane'')), 3)
   \<and> call plain_upper toy_openfermion (bare_base (str ''xyz'')) 3
     = (Inl (OpenVQEParameterError (str ''transformation'') (str ''ParametersHamiltonian'')
               (str ''xyz'') (str ''HamiltonianBase.__call__()'')), 3)
   \<and> call plain_upper toy_openfermion (bare_base (str ''JW'')) 3
     = (Inl (NotImplementedError (str
          ''You try to call get_hamiltonian from the HamiltonianBase class. This function needs to be overwritten by subclasses'')),
        3)
   \<and> call plain_upper toy_openfermion reconfiguring_subclass 0 = (Inr 6, 1)
   \<and> call plain_upper toy_openfermion reconfiguring_subclass 1 = (Inr 9, 2)
   \<and> call plain_upper toy_openfermion reconfiguring_subclass 2 = (Inr 105, 3)"
proof -
  let ?msg = "str ''You try to call get_hamiltonian from the HamiltonianBase class. This function needs to be overwritten by subclasses''"
  have r: "verify (rejecting_subclass (str ''JW'')) 3 = (Inl (Raised (str ''not sane'')), 3)"
    by (simp add: instance_defs rejecting_subclass_def verify_def)
  have v: "verify (bare_base t) 3 = (Inr True, 3)" for t
    by (simp add: instance_defs bare_base_def HamiltonianBase_def verify_def)
  have u: "\<not> jordan_wigner plain_upper (parameters (bare_base (str ''xyz'')) 3)
      \<and> \<not> bravyi_kitaev plain_upper (parameters (bare_base (str ''xyz'')) 3)
      \<and> (\<forall>m'. getattr_self (bare_base (str ''xyz'')) 3
             (transformation (parameters (bare_base (str ''xyz'')) 3)) \<noteq> Some (Callable m'))"
    by (simp add: instance_defs bare_base_def HamiltonianBase_def operation_defs)
  have j: "jordan_wigner plain_upper (parameters (bare_base (str ''JW'')) 3)"
    by (simp add: instance_defs bare_base_def HamiltonianBase_def jordan_wigner_iff
          upper_written_aliases)
  have g: "get_fermionic_hamiltonian (bare_base t) 3 = (Inl (NotImplementedError ?msg), 3)" for t
    by (simp add: instance_defs bare_base_def HamiltonianBase_def get_fermionic_hamiltonian_def)
  have x: "unknown_transformation (bare_base (str ''xyz'')) (parameters (bare_base (str ''xyz'')) 3)
      = OpenVQEParameterError (str ''transformation'') (str ''ParametersHamiltonian'')
               (str ''xyz'') (str ''HamiltonianBase.__call__()'')"
    by (simp add: instance_defs bare_base_def HamiltonianBase_def unknown_transformation_def
          str_def)
  have rv: "verify reconfiguring_subclass t = (Inr True, t)" for t
    by (simp add: reconfiguring_subclass_def sane_def verify_def)
  have rg: "get_fermionic_hamiltonian reconfiguring_subclass t = (Inr (t + 3), Suc t)" for t
    by (simp add: reconfiguring_subclass_def get_fermionic_hamiltonian_def)
  have r0: "jordan_wigner plain_upper (parameters reconfiguring_subclass 0)"
    by (simp add: reconfiguring_subclass_def reconfigured_def jordan_wigner_iff
          upper_written_aliases)
  have r1: "bravyi_kitaev plain_upper (parameters reconfiguring_subclass 1)"
    by (simp add: reconfiguring_subclass_def reconfigured_def bravyi_kitaev_iff
          upper_written_aliases)
  have r2: "\<not> jordan_wigner plain_upper (parameters reconfiguring_subclass 2)
      \<and> \<not> bravyi_kitaev plain_upper (parameters reconfiguring_subclass 2)
      \<and> getattr_self reconfiguring_subclass 2
            (transformation (parameters reconfiguring_subclass 2)) = Some (Callable custom_transform)"
    by (simp add: reconfiguring_subclass_def reconfigured_def plain_upper_def operation_defs)
  have w1: "call plain_upper toy_openfermion (rejecting_subclass (str ''JW'')) 3
      = (Inl (Raised (str ''not sane'')), 3)"
    using call_step_order [where self = "rejecting_subclass (str ''JW'')" and s = 3
        and e = "Raised (str ''not sane'')" and ?s1.0 = 3 and uc = plain_upper
        and lib = toy_openfermion] r
    by simp
  have w2: "call plain_upper toy_openfermion (bare_base (str ''xyz'')) 3
      = (Inl (OpenVQEParameterError (str ''transformation'') (str ''ParametersHamiltonian'')
               (str ''xyz'') (str ''HamiltonianBase.__call__()'')), 3)"
    using call_step_order [where self = "bare_base (str ''xyz'')" and s = 3 and v = True
        and ?s1.0 = 3 and uc = plain_upper and lib = toy_openfermion] u
    by (simp only: v x simp_thms)
  have w3: "call plain_upper toy_openfermion (bare_base (str ''JW'')) 3
      = (Inl (NotImplementedError ?msg), 3)"
    using call_step_order [where self = "bare_base (str ''JW'')" and s = 3 and v = True
        and ?s1.0 = 3 and uc = plain_upper and lib = toy_openfermion
        and e' = "NotImplementedError ?msg" and ?s2.0 = 3] j
    by (simp only: v g simp_thms)
  have w4: "call plain_upper toy_openfermion reconfiguring_subclass 0 = (Inr 6, 1)"
    using call_step_order [where self = reconfiguring_subclass and s = 0 and v = True
        and ?s1.0 = 0 and uc = plain_upper and lib = toy_openfermion and H = 3 and ?s2.0 = 1]
      r0 rv [of 0] rg [of 0]
    by (simp add: toy_openfermion_def)
  have w5: "call plain_upper toy_openfermion reconfiguring_subclass 1 = (Inr 9, 2)"
    using call_step_order [where self = reconfiguring_subclass and s = 1 and v = True
        and ?s1.0 = 1 and uc = plain_upper and lib = toy_openfermion and H = 4 and ?s2.0 = 2]
      r1 rv [of 1] rg [of 1]
    by (simp add: toy_openfermion_def)
  have w6: "call plain_upper toy_openfermion reconfiguring_subclass 2 = (Inr 105, 3)"
    using call_step_order [where self = reconfiguring_subclass and s = 2 and v = True
        and ?s1.0 = 2 and uc = plain_upper and lib = toy_openfermion and H = 5 and ?s2.0 = 3
        and m = custom_transform]
      r2 rv [of 2] rg [of 2]
    by (simp add: custom_transform_def)
  show ?thesis
    using w1 w2 w3 w4 w5 w6 by simp
qed

section \<open>No state of its own\<close>

text \<open>
  Claim C7. \<open>__call__\<close> keeps no cache and changes no state itself. When the operations
  it runs in the state \<open>s\<close> leave that state unchanged (\<open>verify()\<close>,
  \<open>get_fermionic_hamiltonian()\<close> and, if the configured name is that of a callable
  attribute, that callable on the Hamiltonian fetched), \<open>__call__\<close> leaves \<open>s\<close> unchanged
  as well, and two consecutive invocations both have the outcome computed from \<open>s\<close>: the
  exception of \<open>verify()\<close>, or that of \<open>get_fermionic_hamiltonian()\<close> in a branch that
  fetches, or the library's transformation of the Hamiltonian fetched, or the outcome of
  the custom callable on it, or the parameter error. Other attributes of the instance may
  change its state as they like.
\<close>

theorem call_changes_no_state:
  assumes "snd (verify self s) = s"
    and "snd (get_fermionic_hamiltonian self s) = s"
    and "\<And>m h. getattr_self self s (transformation (parameters self s)) = Some (Callable m) \<Longrightarrow>
           fst (get_fermionic_hamiltonian self s) = Inr h \<Longrightarrow> snd (m h s) = s"
  shows "let outcome =
           (case fst (verify self s) of
              Inl e \<Rightarrow> Inl e
            | Inr v \<Rightarrow>
                if jordan_wigner uc (parameters self s) then
                  (case fst (get_fermionic_hamiltonian self s) of
                     Inl e \<Rightarrow> Inl e
                   | Inr h \<Rightarrow>
                       (case openfermion_get_fermion_operator lib h of
                          Inl e \<Rightarrow> Inl e
                        | Inr f \<Rightarrow> openfermion_jordan_wigner lib f))
                else if bravyi_kitaev uc (parameters self s) then
                  (case fst (get_fermionic_hamiltonian self s) of
                     Inl e \<Rightarrow> Inl e
                   | Inr h \<Rightarrow>
                       (case openfermion_get_fermion_operator lib h of
                          Inl e \<Rightarrow> Inl e
                        | Inr f \<Rightarrow> openfermion_bravyi_kitaev lib f))
                else
                  (case getattr_self self s (transformation (parameters self s)) of
                     Some (Callable m) \<Rightarrow>
                       (case fst (get_fermionic_hamiltonian self s) of
                          Inl e \<Rightarrow> Inl e
                        | Inr h \<Rightarrow> fst (m h s))
                   | _ \<Rightarrow>
                       Inl (OpenVQEParameterError (str ''transformation'')
                              (type_of (parameters self s)) (transformation (parameters self s))
                              (type_name self @ str ''.__call__()''))))
         in call uc lib self s = (outcome, s)
          \<and> call uc lib self (snd (call uc lib self s)) = (outcome, s)"
proof -
  define r where "r = fst (verify self s)"
  define g where "g = fst (get_fermionic_hamiltonian self s)"
  have v: "verify self s = (r, s)"
    using assms(1) by (simp add: r_def prod_eq_iff)
  have f: "get_fermionic_hamiltonian self s = (g, s)"
    using assms(2) by (simp add: g_def prod_eq_iff)
  have c: "m h s = (fst (m h s), s)"
    if "getattr_self self s (transformation (parameters self s)) = Some (Callable m)"
      and "g = Inr h" for m h
    using assms(3) [OF that(1), of h] that(2) by (simp add: g_def prod_eq_iff)
  have t: "transformed_by lib tr self s =
      (case g of Inl e \<Rightarrow> Inl e
       | Inr h \<Rightarrow> (case openfermion_get_fermion_operator lib h of Inl e \<Rightarrow> Inl e | Inr x \<Rightarrow> tr x),
       s)" for tr
    by (cases g) (simp_all add: transformed_by_def f then_apply_def)
  have i: "invoke m self s = (case g of Inl e \<Rightarrow> Inl e | Inr h \<Rightarrow> fst (m h s), s)"
    if "getattr_self self s (transformation (parameters self s)) = Some (Callable m)" for m
    using c [OF that] by (cases g) (simp_all add: invoke_def f)
  have main: "call uc lib self s =
      (case r of
         Inl e \<Rightarrow> Inl e
       | Inr v \<Rightarrow>
           if jordan_wigner uc (parameters self s) then
             (case g of Inl e \<Rightarrow> Inl e
              | Inr h \<Rightarrow> (case openfermion_get_fermion_operator lib h of
                    Inl e \<Rightarrow> Inl e | Inr x \<Rightarrow> openfermion_jordan_wigner lib x))
           else if bravyi_kitaev uc (parameters self s) then
             (case g of Inl e \<Rightarrow> Inl e
              | Inr h \<Rightarrow> (case openfermion_get_fermion_operator lib h of
                    Inl e \<Rightarrow> Inl e | Inr x \<Rightarrow> openfermion_bravyi_kitaev lib x))
           else
             (case getattr_self self s (transformation (parameters self s)) of
                Some (Callable m) \<Rightarrow> (case g of Inl e \<Rightarrow> Inl e | Inr h \<Rightarrow> fst (m h s))
              | _ \<Rightarrow> Inl (unknown_transformation self (parameters self s))),
       s)"
  proof (cases r)
    case (Inl e)
    with v show ?thesis
      by (simp add: call_def)
  next
    case (Inr b)
    with v show ?thesis
      by (auto simp add: call_def t i split: option.splits attribute.splits)
  qed
  show ?thesis
    unfolding Let_def
    using main [unfolded r_def g_def unknown_transformation_def]
    by (simp only: snd_conv simp_thms)
qed

theorem call_changes_no_state_witness:
  "call plain_upper toy_openfermion (stateful_subclass (str ''custom_transform'')) 3 = (Inr 103, 3)
   \<and> call plain_upper toy_openfermion (stateful_subclass (str ''custom_transform''))
        (snd (call plain_upper toy_openfermion (stateful_subclass (str ''custom_transform'')) 3))
      = (Inr 103, 3)
   \<and> call plain_upper toy_openfermion (stateful_subclass (str ''custom_transform'')) 4 = (Inr 104, 4)
   \<and> snd (set_basis 8 3) \<noteq> 3
   \<and> getattr_self (stateful_subclass (str ''custom_transform'')) 3 (str ''set_basis'')
      = Some (Callable set_basis)"
proof -
  let ?x = "stateful_subclass (str ''custom_transform'')"
  have w: "verify ?x k = (Inr True, k)" for k
    by (simp add: stateful_subclass_def instance_defs verify_def)
  have a: "snd (verify ?x k) = k" for k
    by (simp add: w)
  have b: "get_fermionic_hamiltonian ?x k = (Inr k, k)" for k
    by (simp add: stateful_subclass_def instance_defs get_fermionic_hamiltonian_def)
  have b': "snd (get_fermionic_hamiltonian ?x k) = k" for k
    by (simp add: b)
  have n: "transformation (parameters ?x k) = str ''custom_transform''" for k
    by (simp add: stateful_subclass_def instance_defs)
  have l: "getattr_self ?x k (str ''custom_transform'') = Some (Callable custom_transform)" for k
    by (simp add: stateful_subclass_def instance_defs)
  have o: "snd (set_basis 8 3) \<noteq> 3
      \<and> getattr_self ?x 3 (str ''set_basis'') = Some (Callable set_basis)"
    by (simp add: stateful_subclass_def instance_defs set_basis_def str_def)
  have j: "\<not> jordan_wigner plain_upper (parameters ?x k)
      \<and> \<not> bravyi_kitaev plain_upper (parameters ?x k)" for k
    by (simp add: stateful_subclass_def instance_defs operation_defs)
  have e: "call plain_upper toy_openfermion ?x k = (Inr (k + 100), k)
      \<and> call plain_upper toy_openfermion ?x (snd (call plain_upper toy_openfermion ?x k))
          = (Inr (k + 100), k)" for k
    using call_changes_no_state [of ?x k plain_upper toy_openfermion, OF a b']
    by (simp add: Let_def b j w n l custom_transform_def)
  show ?thesis
    using e [of 3] e [of 4] o by simp
qed

section \<open>How names are matched\<close>

text \<open>
  Claim C8. The dispatch matches names in two ways. A configured name whose uppercase
  form is that of a written alias (\<open>JW\<close>, \<open>J-W\<close>, \<open>Jordan-Wigner\<close>; \<open>BK\<close>, \<open>B-K\<close>,
  \<open>Bravyi-Kitaev\<close>) selects the built-in transformation, whatever the case of its
  letters. A custom transformation is looked up under the configured name as it is: on an
  instance that has the method \<open>n\<close>, a name that is no alias selects the method exactly
  when it is equal to \<open>n\<close>, and a name with no callable attribute of its own, a case
  variant of \<open>n\<close> for instance, gives the parameter error.
\<close>

theorem dispatch_name_matching:
  assumes "verify self s = (Inr v, s1)"
    and "t = transformation (parameters self s1)"
  shows "(upper uc t = upper uc a \<and> a \<in> {str ''JW'', str ''J-W'', str ''Jordan-Wigner''} \<longrightarrow>
            call uc lib self s = transformed_by lib (openfermion_jordan_wigner lib) self s1)
       \<and> (upper uc t = upper uc b \<and> b \<in> {str ''BK'', str ''B-K'', str ''Bravyi-Kitaev''} \<longrightarrow>
            call uc lib self s = transformed_by lib (openfermion_bravyi_kitaev lib) self s1)
       \<and> (\<not> jordan_wigner uc (parameters self s1) \<and> \<not> bravyi_kitaev uc (parameters self s1)
           \<and> getattr_self self s1 = A(n \<mapsto> Callable m) \<and> (\<forall>m'. A t \<noteq> Some (Callable m')) \<longrightarrow>
            call uc lib self s =
              (if t = n then invoke m self s1
               else (Inl (unknown_transformation self (parameters self s1)), s1)))"
proof (intro conjI impI)
  assume "upper uc t = upper uc a \<and> a \<in> {str ''JW'', str ''J-W'', str ''Jordan-Wigner''}"
  then have "upper uc t \<in> {str ''JW'', str ''J-W'', str ''JORDAN-WIGNER''}"
    by (auto simp add: upper_written_aliases)
  then have "jordan_wigner uc (parameters self s1)"
    by (simp add: jordan_wigner_iff assms(2))
  then show "call uc lib self s = transformed_by lib (openfermion_jordan_wigner lib) self s1"
    by (rule call_jordan_wigner [OF assms(1)])
next
  assume "upper uc t = upper uc b \<and> b \<in> {str ''BK'', str ''B-K'', str ''Bravyi-Kitaev''}"
  then have "upper uc t \<in> {str ''BK'', str ''B-K'', str ''BRAVYI-KITAEV''}"
    by (auto simp add: upper_written_aliases)
  then have "bravyi_kitaev uc (parameters self s1)"
    by (simp add: bravyi_kitaev_iff assms(2))
  then show "call uc lib self s = transformed_by lib (openfermion_bravyi_kitaev lib) self s1"
    by (rule call_bravyi_kitaev [OF assms(1)])
next
  assume h: "\<not> jordan_wigner uc (parameters self s1) \<and> \<not> bravyi_kitaev uc (parameters self s1)
           \<and> getattr_self self s1 = A(n \<mapsto> Callable m) \<and> (\<forall>m'. A t \<noteq> Some (Callable m'))"
  then have nj: "\<not> jordan_wigner uc (parameters self s1)"
    and nb: "\<not> bravyi_kitaev uc (parameters self s1)"
    and g: "getattr_self self s1 = A(n \<mapsto> Callable m)"
    and o: "\<forall>m'. A t \<noteq> Some (Callable m')"
    by simp_all
  show "call uc lib self s =
          (if t = n then invoke m self s1
           else (Inl (unknown_transformation self (parameters self s1)), s1))"
  proof (cases "t = n")
    case True
    then have "getattr_self self s1 (transformation (parameters self s1)) = Some (Callable m)"
      using g assms(2) by simp
    then show ?thesis
      using True by (simp add: call_callable [OF assms(1) nj nb])
  next
    case False
    then have "\<forall>m'. getattr_self self s1 (transformation (parameters self s1)) \<noteq> Some (Callable m')"
      using g o assms(2) by simp
    then show ?thesis
      using False by (simp add: call_not_callable [OF assms(1) nj nb])
  qed
qed

theorem dispatch_name_matching_witness:
  "call plain_upper toy_openfermion (example_subclass (str ''jOrDaN-wIgNeR'')) 3 = (Inr 6, 3)
   \<and> call plain_upper toy_openfermion (example_subclass (str ''b-k'')) 3 = (Inr 7, 3)
   \<and> call plain_upper toy_openfermion (example_subclass (str ''custom_transform'')) 3 = (Inr 103, 3)
   \<and> upper plain_upper (str ''CUSTOM_TRANSFORM'') = upper plain_upper (str ''custom_transform'')
   \<and> call plain_upper toy_openfermion (example_subclass (str ''CUSTOM_TRANSFORM'')) 3
       = (Inl (OpenVQEParameterError (str ''transformation'') (str ''ParametersHamiltonian'')
                 (str ''CUSTOM_TRANSFORM'') (str ''ExampleHamiltonian.__call__()'')), 3)"
proof -
  let ?A = "[str ''basis'' \<mapsto> NotCallable, str ''bk'' \<mapsto> NotCallable,
             str ''jw'' \<mapsto> Callable jw_method] :: pystr \<Rightarrow> (nat, nat, nat) attribute option"
  have v: "verify (example_subclass t) 3 = (Inr True, 3)" for t
    by (simp add: instance_defs verify_def)
  have p: "t = transformation (parameters (example_subclass t) 3)" for t
    by (simp add: instance_defs)
  have g: "getattr_self (example_subclass t) 3 = ?A(str ''custom_transform'' \<mapsto> Callable custom_transform)" for t
    by (simp add: example_subclass_def)
  have j: "upper plain_upper (str ''jOrDaN-wIgNeR'') = upper plain_upper (str ''Jordan-Wigner'')"
    and b: "upper plain_upper (str ''b-k'') = upper plain_upper (str ''B-K'')"
    and u: "upper plain_upper (str ''CUSTOM_TRANSFORM'') = upper plain_upper (str ''custom_transform'')"
    by (simp_all add: upper_def upper_code_point_def str_def)
  have n1: "\<not> jordan_wigner plain_upper (parameters (example_subclass (str ''custom_transform'')) 3)
      \<and> \<not> bravyi_kitaev plain_upper (parameters (example_subclass (str ''custom_transform'')) 3)"
    and n2: "\<not> jordan_wigner plain_upper (parameters (example_subclass (str ''CUSTOM_TRANSFORM'')) 3)
      \<and> \<not> bravyi_kitaev plain_upper (parameters (example_subclass (str ''CUSTOM_TRANSFORM'')) 3)"
    by (simp_all add: instance_defs operation_defs)
  have o1: "\<forall>m'. ?A (str ''custom_transform'') \<noteq> Some (Callable m')"
    and o2: "\<forall>m'. ?A (str ''CUSTOM_TRANSFORM'') \<noteq> Some (Callable m')"
    by (simp_all add: str_def)
  have d: "str ''CUSTOM_TRANSFORM'' \<noteq> str ''custom_transform''"
    by (simp add: str_def)
  have w1: "call plain_upper toy_openfermion (example_subclass (str ''jOrDaN-wIgNeR'')) 3 = (Inr 6, 3)"
    using dispatch_name_matching [OF v p, of plain_upper "str ''jOrDaN-wIgNeR''" "str ''Jordan-Wigner''"
        toy_openfermion] j
    by (simp add: transformed_by_def get_fermionic_hamiltonian_def then_apply_def instance_defs)
  have w2: "call plain_upper toy_openfermion (example_subclass (str ''b-k'')) 3 = (Inr 7, 3)"
    using dispatch_name_matching [OF v p, of plain_upper "str ''b-k''" _ toy_openfermion "str ''B-K''"] b
    by (simp add: transformed_by_def get_fermionic_hamiltonian_def then_apply_def instance_defs)
  have w3: "call plain_upper toy_openfermion (example_subclass (str ''custom_transform'')) 3 = (Inr 103, 3)"
    using dispatch_name_matching [OF v p, of plain_upper "str ''custom_transform''" _ toy_openfermion _
        ?A "str ''custom_transform''" custom_transform] n1 g o1
    by (simp add: invoke_def get_fermionic_hamiltonian_def instance_defs)
  have w4: "call plain_upper toy_openfermion (example_subclass (str ''CUSTOM_TRANSFORM'')) 3
       = (Inl (OpenVQEParameterError (str ''transformation'') (str ''ParametersHamiltonian'')
                 (str ''CUSTOM_TRANSFORM'') (str ''ExampleHamiltonian.__call__()'')), 3)"
    using dispatch_name_matching [OF v p, of plain_upper "str ''CUSTOM_TRANSFORM''" _ toy_openfermion _
        ?A "str ''custom_transform''" custom_transform] n2 g o2 d
    by (simp add: unknown_transformation_def instance_defs str_def)
  show ?thesis
    using w1 w2 w3 u w4 by simp
qed


end
